theory Spec2Isabelle
  imports Main "HOL-Library.Sublist"
begin

section \<open>Styrene command line: \<open>styrene/cmdline.py\<close>\<close>

text \<open>
  The module has three parts: the console formatter \<open>ColorFormatter\<close>, the per-spec
  orchestration \<open>process_spec_file\<close>, and the driver \<open>main\<close>. The bundling engine
  (\<open>bundle.py\<close>), \<open>utils.fix_tree_perms\<close> and the Python standard library are
  collaborators of this module; they appear below as fields of an environment record or as
  small models of the library call, each marked as such.
\<close>

subsection \<open>Run options (the \<open>optparse\<close> values of \<open>main\<close>)\<close>

record options =
  quiet :: bool
  debug :: bool
  output_dir :: "string option"
  pkgdirs :: "string list"
  build_exe :: bool
  build_zip :: bool
  colour :: string

text \<open>Python truthiness of \<open>options.output_dir\<close>: \<open>None\<close> and the empty string are falsy.\<close>

definition truthy :: "string option \<Rightarrow> bool" where
  "truthy v = (case v of None \<Rightarrow> False | Some s \<Rightarrow> s \<noteq> [])"

subsection \<open>Logging levels and the level chosen by \<open>main\<close>\<close>

text \<open>The numeric levels of Python's \<open>logging\<close> module.\<close>

definition DEBUG :: nat where "DEBUG = 10"
definition INFO :: nat where "INFO = 20"
definition WARNING :: nat where "WARNING = 30"
definition ERROR :: nat where "ERROR = 40"

text \<open>Lines 238-243 of \<open>main\<close>: \<open>if options.quiet ... elif options.debug ... else\<close>.\<close>

definition loglevel :: "options \<Rightarrow> nat" where
  "loglevel opts =
     (if quiet opts then WARNING
      else if debug opts then DEBUG
      else INFO)"

subsection \<open>Colour enablement in \<open>main\<close>\<close>

text \<open>
  \<open>str.casefold\<close> on the ASCII letters, where it is lower-casing; every other character
  is left as it is.
\<close>

definition casefold_char :: "char \<Rightarrow> char" where
  "casefold_char c =
     (case map_of (zip ''ABCDEFGHIJKLMNOPQRSTUVWXYZ'' ''abcdefghijklmnopqrstuvwxyz'') c of
        Some l \<Rightarrow> l
      | None \<Rightarrow> c)"

definition casefold :: "string \<Rightarrow> string" where
  "casefold s = map casefold_char s"

text \<open>
  Lines 220-223: a dict literal with the two keys \<open>"yes".casefold()\<close> and
  \<open>"no".casefold()\<close> (a later key overrides an equal earlier one, as map update does),
  then \<open>.get(options.colour.casefold(), sys.stderr.isatty())\<close>.
\<close>

definition colourize :: "string \<Rightarrow> bool \<Rightarrow> bool" where
  "colourize col isatty =
     (case [casefold ''yes'' \<mapsto> True, casefold ''no'' \<mapsto> False] (casefold col) of
        Some v \<Rightarrow> v
      | None \<Rightarrow> isatty)"


subsection \<open>\<open>ColorFormatter\<close>: token highlighting\<close>

definition BOLD :: string where
  "BOLD = [CHR 0x1B, CHR ''['', CHR ''0'', CHR ''1'', CHR ''m'']"

definition BOLDOFF :: string where
  "BOLDOFF = [CHR 0x1B, CHR ''['', CHR ''2'', CHR ''2'', CHR ''m'']"

text \<open>\<open>replace_bold\<close> receives the matched text \<open>m.group(0)\<close>.\<close>

definition replace_bold :: "string \<Rightarrow> string" where
  "replace_bold g = BOLD @ g @ BOLDOFF"

text \<open>
  The regular expressions of \<open>token_formatting\<close> are sequences of single-character
  atoms, each taken once, optionally (\<open>?\<close>) or any number of times (\<open>*\<close>, greedy).
\<close>

datatype atom = Lit char | Class string

datatype piece = Once atom | Optional atom | Many atom

type_synonym regex = "piece list"

fun atom_ok :: "atom \<Rightarrow> char \<Rightarrow> bool" where
  "atom_ok (Lit a) c = (c = a)"
| "atom_ok (Class cs) c = (c \<in> set cs)"

text \<open>
  A backtracking matcher anchored at the head of the text, as \<open>re\<close> runs it: a greedy
  quantifier first takes the character and gives it back when the rest fails. The result
  is the length of the match found first.
\<close>

fun match_here :: "regex \<Rightarrow> string \<Rightarrow> nat option" where
  "match_here [] s = Some 0"
| "match_here (Once a # ps) [] = None"
| "match_here (Once a # ps) (c # t) =
     (if atom_ok a c then map_option Suc (match_here ps t) else None)"
| "match_here (Optional a # ps) [] = match_here ps []"
| "match_here (Optional a # ps) (c # t) =
     (if atom_ok a c
      then (case match_here ps t of
              Some n \<Rightarrow> Some (Suc n)
            | None \<Rightarrow> match_here ps (c # t))
      else match_here ps (c # t))"
| "match_here (Many a # ps) [] = match_here ps []"
| "match_here (Many a # ps) (c # t) =
     (if atom_ok a c
      then (case match_here (Many a # ps) t of
              Some n \<Rightarrow> Some (Suc n)
            | None \<Rightarrow> match_here ps (c # t))
      else match_here ps (c # t))"

text \<open>
  \<open>token_re.sub(repl, msg)\<close>: the leftmost matches, not overlapping, each replaced by
  \<open>repl\<close> of the matched text; an empty match is replaced too and the scan moves on by
  one character. (A match is never longer than the text, so the branch for a non-empty
  match of the empty text is never taken.)
\<close>

fun re_sub :: "regex \<Rightarrow> (string \<Rightarrow> string) \<Rightarrow> string \<Rightarrow> string" where
  "re_sub re repl s =
     (case match_here re s of
        None \<Rightarrow> (case s of [] \<Rightarrow> [] | c # t \<Rightarrow> c # re_sub re repl t)
      | Some 0 \<Rightarrow> repl [] @ (case s of [] \<Rightarrow> [] | c # t \<Rightarrow> c # re_sub re repl t)
      | Some (Suc n) \<Rightarrow>
          (case s of
             [] \<Rightarrow> []
           | c # t \<Rightarrow> repl (c # take n t) @ re_sub re repl (drop n t)))"

declare re_sub.simps [simp del]

text \<open>Lines 81-86, in the order of the source.\<close>

definition re_r :: regex where
  "re_r = [Once (Lit CHR ''%''), Once (Lit CHR ''r'')]"

definition re_s :: regex where
  "re_s = [Once (Lit CHR ''%''), Once (Lit CHR ''s'')]"

definition re_d :: regex where
  "re_d = [Once (Lit CHR ''%''), Optional (Lit CHR ''+''), Many (Class ''0123456789.''),
           Once (Lit CHR ''d'')]"

definition re_f :: regex where
  "re_f = [Once (Lit CHR ''%''), Optional (Lit CHR ''+''), Many (Class ''0123456789.''),
           Once (Lit CHR ''f'')]"

definition token_formatting :: "(regex \<times> (string \<Rightarrow> string)) list" where
  "token_formatting =
     [(re_r, replace_bold), (re_s, replace_bold), (re_d, replace_bold), (re_f, replace_bold)]"

text \<open>Lines 87-89: \<open>for token_re, repl in token_formatting: msg = token_re.sub(repl, msg)\<close>.\<close>

definition format_msg :: "string \<Rightarrow> string" where
  "format_msg msg = foldl (\<lambda>m (token_re, repl). re_sub token_re repl m) msg token_formatting"

text \<open>
  The placeholder kinds in the words of the design: the literal \<open>%r\<close> or \<open>%s\<close>, and a
  number placeholder, which is \<open>%\<close>, an optional \<open>+\<close>, a run of digits and dots as long
  as possible, and the conversion letter. Each recogniser gives the length of the
  placeholder at the head of the text.
\<close>

definition placeholder_lit :: "string \<Rightarrow> string \<Rightarrow> nat option" where
  "placeholder_lit tok s = (if prefix tok s then Some (length tok) else None)"

definition digit_or_dot :: "char \<Rightarrow> bool" where
  "digit_or_dot c = (c \<in> set ''0123456789.'')"

definition placeholder_num :: "char \<Rightarrow> string \<Rightarrow> nat option" where
  "placeholder_num conv s =
     (case s of
        [] \<Rightarrow> None
      | c # t \<Rightarrow>
          if c \<noteq> CHR ''%'' then None
          else
            let sign = takeWhile (\<lambda>x. x = CHR ''+'') (take 1 t);
                t1 = drop (length sign) t;
                width = takeWhile digit_or_dot t1
            in (case drop (length width) t1 of
                  [] \<Rightarrow> None
                | x # _ \<Rightarrow>
                    if x = conv then Some (Suc (length sign + length width + 1)) else None))"

text \<open>Wrapping every placeholder of one kind in the bold pair, scanning left to right.\<close>

fun wrap_each :: "(string \<Rightarrow> nat option) \<Rightarrow> string \<Rightarrow> string" where
  "wrap_each kind [] = []"
| "wrap_each kind (c # t) =
     (case kind (c # t) of
        None \<Rightarrow> c # wrap_each kind t
      | Some 0 \<Rightarrow> c # wrap_each kind t
      | Some (Suc n) \<Rightarrow> BOLD @ (c # take n t) @ BOLDOFF @ wrap_each kind (drop n t))"


subsection \<open>Exceptions, paths and the file system\<close>

text \<open>
  \<open>Exception m\<close> is an instance of \<open>Exception\<close> or of a subclass; \<open>BaseException m\<close>
  is one that is not (\<open>KeyboardInterrupt\<close>, \<open>SystemExit\<close>), which the clauses
  \<open>except Exception\<close> of \<open>main\<close> do not catch.
\<close>

datatype exn = Exception string | BaseException string

type_synonym path = string

text \<open>Regular files with their bytes, and the directories that exist.\<close>

record filesystem =
  files :: "path \<Rightarrow> string option"
  isdir :: "path \<Rightarrow> bool"

text \<open>\<open>os.path.basename\<close> and \<open>os.path.join\<close> of \<open>posixpath\<close>, for two components.\<close>

definition basename :: "path \<Rightarrow> string" where
  "basename p = rev (takeWhile (\<lambda>c. c \<noteq> CHR ''/'') (rev p))"

definition join :: "path \<Rightarrow> path \<Rightarrow> path" where
  "join a b =
     (if take 1 b = ''/'' then b
      else if a = [] \<or> last a = CHR ''/'' then a @ b
      else a @ ''/'' @ b)"

text \<open>A path is inside a directory when it is the directory or lies below it.\<close>

definition inside :: "path \<Rightarrow> path \<Rightarrow> bool" where
  "inside d p = (p = d \<or> prefix (d @ ''/'') p)"

subsection \<open>The collaborators\<close>

text \<open>
  The engine object of \<open>bundle.py\<close>: its two methods that this module calls. A method
  may raise; \<open>write_distributables\<close> may change the file system in any way and returns
  the paths of the files it wrote.
\<close>

record native_bundle =
  check_runtime_dependencies :: "filesystem \<Rightarrow> exn option"
  write_distributables :: "path \<Rightarrow> options \<Rightarrow> filesystem \<Rightarrow> (exn + path list) \<times> filesystem"

text \<open>A parsed specification: the sections of the ini file with their keys and values.\<close>

type_synonym spec = "(string \<times> (string \<times> string) list) list"

text \<open>
  Everything else the module calls: the constructor \<open>NativeBundle(spec)\<close>,
  \<open>utils.fix_tree_perms\<close> (permissions are not part of \<open>filesystem\<close>, so only its
  outcome is kept), \<open>os.getcwd()\<close>, the name \<open>tempfile.mkdtemp\<close> picks, the failures
  of \<open>shutil.copy\<close> and \<open>shutil.rmtree\<close> that the file system above does not
  explain (permissions, a full disk), \<open>ConfigParser.read\<close>, and \<open>sys.stderr.isatty()\<close>.
\<close>

record env =
  NativeBundle :: "spec \<Rightarrow> exn + native_bundle"
  fix_tree_perms :: "path \<Rightarrow> filesystem \<Rightarrow> exn option"
  getcwd :: path
  mkdtemp_name :: "string \<Rightarrow> filesystem \<Rightarrow> exn + path"
  copy_fault :: "path \<Rightarrow> path \<Rightarrow> filesystem \<Rightarrow> exn option"
  rmtree_fault :: "path \<Rightarrow> filesystem \<Rightarrow> exn option"
  read_spec :: "path \<Rightarrow> filesystem \<Rightarrow> exn + spec"
  stderr_isatty :: bool

text \<open>
  \<open>tempfile.mkdtemp(prefix=...)\<close>: a directory that did not exist is created and its
  path returned.
\<close>

definition mkdtemp :: "env \<Rightarrow> string \<Rightarrow> filesystem \<Rightarrow> exn + (path \<times> filesystem)" where
  "mkdtemp env pre fs0 =
     (case mkdtemp_name env pre fs0 of
        Inl e \<Rightarrow> Inl e
      | Inr d \<Rightarrow>
          if isdir fs0 d \<or> files fs0 d \<noteq> None then Inl (Exception ''FileExistsError'')
          else Inr (d, fs0\<lparr>isdir := (isdir fs0)(d := True)\<rparr>))"

text \<open>
  \<open>shutil.copy(src, dst)\<close>: a destination that is a directory stands for the file of
  the source's name in it; the source is read and the destination written or overwritten.
  The source stays.
\<close>

definition copy :: "env \<Rightarrow> path \<Rightarrow> path \<Rightarrow> filesystem \<Rightarrow> exn + filesystem" where
  "copy env src dst fs0 =
     (case copy_fault env src dst fs0 of
        Some e \<Rightarrow> Inl e
      | None \<Rightarrow>
          (let dst' = (if isdir fs0 dst then join dst (basename src) else dst)
           in case files fs0 src of
                None \<Rightarrow> Inl (Exception ''FileNotFoundError'')
              | Some content \<Rightarrow>
                  if src = dst' then Inl (Exception ''SameFileError'')
                  else if isdir fs0 dst' then Inl (Exception ''IsADirectoryError'')
                  else Inr (fs0\<lparr>files := (files fs0)(dst' \<mapsto> content)\<rparr>)))"

text \<open>
  \<open>shutil.rmtree(d)\<close>: the directory and everything inside it is removed. When it
  raises, the directory itself is still there (it is removed last); what had been removed
  below it by then is not modelled.
\<close>

definition rmtree :: "env \<Rightarrow> path \<Rightarrow> filesystem \<Rightarrow> exn option \<times> filesystem" where
  "rmtree env d fs0 =
     (case rmtree_fault env d fs0 of
        Some e \<Rightarrow> (Some e, fs0)
      | None \<Rightarrow>
          if \<not> isdir fs0 d then (Some (Exception ''FileNotFoundError''), fs0)
          else (None, \<lparr>files = (\<lambda>p. if inside d p then None else files fs0 p),
                       isdir = (\<lambda>p. if inside d p then False else isdir fs0 p)\<rparr>))"

subsection \<open>The state a run acts on\<close>

text \<open>
  A record issued on this module's logger: its level, the message template, the
  arguments, and the exception attached by \<open>logger.exception\<close>.
\<close>

record log_record =
  lr_level :: nat
  lr_msg :: string
  lr_args :: "string list"
  lr_exc :: "exn option"

text \<open>The calls the module makes on its collaborators, in the order made.\<close>

datatype call =
    Construct
  | CheckDeps
  | Mkdtemp string
  | WriteDist path
  | Copy path path
  | FixPerms path
  | Rmtree path
  | Read path

record world =
  fs :: filesystem
  log :: "log_record list"
  calls :: "call list"
  root_level :: nat
  colour_enabled :: bool

definition log_to :: "nat \<Rightarrow> string \<Rightarrow> string list \<Rightarrow> exn option \<Rightarrow> world \<Rightarrow> world" where
  "log_to lvl m as ex w =
     w\<lparr>log := log w @ [\<lparr>lr_level = lvl, lr_msg = m, lr_args = as, lr_exc = ex\<rparr>]\<rparr>"

definition called :: "call \<Rightarrow> world \<Rightarrow> world" where
  "called c w = w\<lparr>calls := calls w @ [c]\<rparr>"

text \<open>The typographic quotes of the messages, in UTF-8.\<close>

definition ldquo :: string where "ldquo = [CHR 0xE2, CHR 0x80, CHR 0x9C]"
definition rdquo :: string where "rdquo = [CHR 0xE2, CHR 0x80, CHR 0x9D]"

text \<open>The message templates of lines 134, 253 and 261.\<close>

definition cleaning_up :: string where
  "cleaning_up = ''Cleaning up '' @ ldquo @ ''%s'' @ rdquo"

definition failed_to_load :: string where
  "failed_to_load = ''Failed to load bundle spec file '' @ ldquo @ ''%s'' @ rdquo"

definition unexpected_error :: string where
  "unexpected_error = ''Unexpected error while processing '' @ ldquo @ ''%s'' @ rdquo"

text \<open>The records of level \<open>ERROR\<close> among those issued.\<close>

definition error_records :: "world \<Rightarrow> log_record list" where
  "error_records w = filter (\<lambda>r. lr_level r = ERROR) (log w)"

subsection \<open>\<open>process_spec_file\<close>\<close>

text \<open>Lines 127-132: the loop over \<open>written\<close>; the first exception ends it.\<close>

fun copy_distfiles :: "env \<Rightarrow> path \<Rightarrow> path list \<Rightarrow> world \<Rightarrow> exn option \<times> world" where
  "copy_distfiles env out_dir [] w = (None, w)"
| "copy_distfiles env out_dir (distfile # rest) w =
     (let distfile_final = join out_dir (basename distfile);
          w1 = called (Copy distfile distfile_final) w
      in case copy env distfile distfile_final (fs w1) of
           Inl e \<Rightarrow> (Some e, w1)
         | Inr fs1 \<Rightarrow> copy_distfiles env out_dir rest (w1\<lparr>fs := fs1\<rparr>))"

text \<open>
  The state in which the \<open>try\<close> statement of line 125 is entered from \<open>w\<close>: the
  engine has been constructed, its dependencies checked, and \<open>mkdtemp\<close> has left the file
  system \<open>fs1\<close>.
\<close>

abbreviation entering_try :: "world \<Rightarrow> filesystem \<Rightarrow> world" where
  "entering_try w fs1 \<equiv>
     (called (Mkdtemp ''styrene'') (called CheckDeps (called Construct w)))\<lparr>fs := fs1\<rparr>"

text \<open>Lines 126-132: the body of the \<open>try\<close>; the result is the exception in flight, if any.\<close>

definition try_body ::
  "env \<Rightarrow> native_bundle \<Rightarrow> options \<Rightarrow> path \<Rightarrow> path \<Rightarrow> world \<Rightarrow> exn option \<times> world" where
  "try_body env b opts out_dir tmp_dir w =
     (let w1 = called (WriteDist tmp_dir) w
      in case write_distributables b tmp_dir opts (fs w1) of
           (Inl e, fs1) \<Rightarrow> (Some e, w1\<lparr>fs := fs1\<rparr>)
         | (Inr written, fs1) \<Rightarrow> copy_distfiles env out_dir written (w1\<lparr>fs := fs1\<rparr>))"

text \<open>
  Lines 133-136: the \<open>finally\<close> block, entered with the exception in flight. An
  exception raised in the block takes its place; otherwise the one in flight goes on.
\<close>

definition finally_block :: "env \<Rightarrow> path \<Rightarrow> exn option \<Rightarrow> world \<Rightarrow> (exn + unit) \<times> world" where
  "finally_block env tmp_dir in_flight w =
     (let w1 = log_to INFO cleaning_up [tmp_dir] None w;
          w2 = called (FixPerms tmp_dir) w1
      in case fix_tree_perms env tmp_dir (fs w2) of
           Some e \<Rightarrow> (Inl e, w2)
         | None \<Rightarrow>
             (let w3 = called (Rmtree tmp_dir) w2
              in case rmtree env tmp_dir (fs w3) of
                   (Some e, fs1) \<Rightarrow> (Inl e, w3\<lparr>fs := fs1\<rparr>)
                 | (None, fs1) \<Rightarrow>
                     (case in_flight of
                        Some e \<Rightarrow> (Inl e, w3\<lparr>fs := fs1\<rparr>)
                      | None \<Rightarrow> (Inr (), w3\<lparr>fs := fs1\<rparr>))))"

definition no_build_warning_1 :: string where
  "no_build_warning_1 =
     ''Both --no-zip and --no-exe were specified, with no '' @
     ''--output-dir to write and keep the remaining '' @
     ''intermediate files in.''"

definition no_build_warning_2 :: string where
  "no_build_warning_2 =
     ''This means that the bundle tree would be '' @
     ''deleted as soon as it was created, '' @
     ''so I'' @ [CHR 0x27] @ ''m doing nothing.''"

text \<open>
  Lines 105-138. In the last branch \<open>output_dir\<close> is truthy, hence a string, and
  \<open>the\<close> reads it.
\<close>

definition process_spec_file :: "env \<Rightarrow> spec \<Rightarrow> options \<Rightarrow> world \<Rightarrow> (exn + unit) \<times> world" where
  "process_spec_file env sp opts w =
     (let w1 = called Construct w
      in case NativeBundle env sp of
           Inl e \<Rightarrow> (Inl e, w1)
         | Inr b \<Rightarrow>
             (let w2 = called CheckDeps w1
              in case check_runtime_dependencies b (fs w2) of
                   Some e \<Rightarrow> (Inl e, w2)
                 | None \<Rightarrow>
                     if \<not> truthy (output_dir opts) then
                       if \<not> (build_zip opts \<or> build_exe opts) then
                         (Inr (),
                          log_to WARNING no_build_warning_2 [] None
                            (log_to WARNING no_build_warning_1 [] None w2))
                       else
                         (let out_dir = getcwd env;
                              w3 = called (Mkdtemp ''styrene'') w2
                          in case mkdtemp env ''styrene'' (fs w3) of
                               Inl e \<Rightarrow> (Inl e, w3)
                             | Inr (tmp_dir, fs1) \<Rightarrow>
                                 (case try_body env b opts out_dir tmp_dir (w3\<lparr>fs := fs1\<rparr>) of
                                    (in_flight, w4) \<Rightarrow> finally_block env tmp_dir in_flight w4))
                     else
                       (let w3 = called (WriteDist (the (output_dir opts))) w2
                        in case write_distributables b (the (output_dir opts)) opts (fs w3) of
                             (Inl e, fs1) \<Rightarrow> (Inl e, w3\<lparr>fs := fs1\<rparr>)
                           | (Inr written, fs1) \<Rightarrow> (Inr (), w3\<lparr>fs := fs1\<rparr>))))"

subsection \<open>\<open>main\<close>\<close>

text \<open>
  How \<open>main\<close> ends: it returns (the interpreter then exits with status 0), it calls
  \<open>sys.exit(n)\<close>, or an exception it does not catch leaves it.
\<close>

datatype outcome = Returned | Exit nat | Raised exn


text \<open>Lines 247-264: the loop over the positional arguments.\<close>

fun process_bundles :: "env \<Rightarrow> options \<Rightarrow> path list \<Rightarrow> world \<Rightarrow> outcome \<times> world" where
  "process_bundles env opts [] w = (Returned, w)"
| "process_bundles env opts (spec_file # rest) w =
     (let w1 = called (Read spec_file) w
      in case read_spec env spec_file (fs w1) of
           Inl (Exception m) \<Rightarrow>
             (Exit 2,
              log_to ERROR failed_to_load [spec_file] (Some (Exception m)) w1)
         | Inl (BaseException m) \<Rightarrow> (Raised (BaseException m), w1)
         | Inr sp \<Rightarrow>
             (case process_spec_file env sp opts w1 of
                (Inl (Exception m), w2) \<Rightarrow>
                  (Exit 2,
                   log_to ERROR unexpected_error [spec_file] (Some (Exception m)) w2)
              | (Inl (BaseException m), w2) \<Rightarrow> (Raised (BaseException m), w2)
              | (Inr u, w2) \<Rightarrow> process_bundles env opts rest w2))"

text \<open>Lines 220-244: the formatter is chosen and the level of the root logger set.\<close>

definition init_logging :: "env \<Rightarrow> options \<Rightarrow> world \<Rightarrow> world" where
  "init_logging env opts w =
     w\<lparr>colour_enabled := colourize (colour opts) (stderr_isatty env),
       root_level := loglevel opts\<rparr>"

text \<open>
  \<open>main\<close> after \<open>parser.parse_args\<close>, which gave \<open>opts\<close> and the positional
  arguments \<open>args\<close>.
\<close>

definition main :: "env \<Rightarrow> options \<Rightarrow> path list \<Rightarrow> world \<Rightarrow> outcome \<times> world" where
  "main env opts args w =
     (if length args = 0 then (Exit 1, w)
      else process_bundles env opts args (init_logging env opts w))"


subsection \<open>The engine's contract for its output directory\<close>

text \<open>
  Modelled from the spec: \<open>write_distributables\<close> belongs to \<open>bundle.py\<close>, which is
  not part of this module. The design says of the output directory that it is created if
  missing and retained: after a call that returns, the directory exists.
\<close>

definition creates_output_dir :: "native_bundle \<Rightarrow> bool" where
  "creates_output_dir b =
     (\<forall>d opts fs0 written fs1.
        write_distributables b d opts fs0 = (Inr written, fs1) \<longrightarrow> isdir fs1 d)"

subsection \<open>Example runs\<close>

definition fs_start :: filesystem where
  "fs_start = \<lparr>files = (\<lambda>p. None), isdir = (\<lambda>p. p = ''/cwd'' \<or> p = ''/tmp'')\<rparr>"

definition world_start :: world where
  "world_start =
     \<lparr>fs = fs_start, log = [], calls = [], root_level = WARNING, colour_enabled = False\<rparr>"

definition opts_default :: options where
  "opts_default = \<lparr>quiet = False, debug = False, output_dir = None, pkgdirs = [],
     build_exe = True, build_zip = True, colour = ''auto''\<rparr>"

definition opts_no_build :: options where
  "opts_no_build = opts_default\<lparr>build_exe := False, build_zip := False\<rparr>"

definition opts_out :: options where
  "opts_out = opts_default\<lparr>output_dir := Some ''/out''\<rparr>"

text \<open>An engine that writes an installer and an archive into the directory it is given.\<close>

definition demo_bundle :: native_bundle where
  "demo_bundle =
     \<lparr>check_runtime_dependencies = (\<lambda>fs0. None),
      write_distributables = (\<lambda>d opts fs0.
        (Inr [join d ''app.exe'', join d ''app.zip''],
         fs0\<lparr>files := (files fs0)(join d ''app.exe'' \<mapsto> ''MZ'', join d ''app.zip'' \<mapsto> ''PK''),
             isdir := (isdir fs0)(d := True)\<rparr>))\<rparr>"

definition demo_env :: env where
  "demo_env =
     \<lparr>NativeBundle = (\<lambda>sp. Inr demo_bundle),
      fix_tree_perms = (\<lambda>d fs0. None),
      getcwd = ''/cwd'',
      mkdtemp_name = (\<lambda>pre fs0. Inr (''/tmp/'' @ pre @ ''0'')),
      copy_fault = (\<lambda>src dst fs0. None),
      rmtree_fault = (\<lambda>d fs0. None),
      read_spec = (\<lambda>f fs0. if f = ''bad.cfg'' then Inl (Exception ''ParsingError'') else Inr []),
      stderr_isatty = False\<rparr>"

text \<open>An engine whose dependency check fails.\<close>

definition env_failing_deps :: env where
  "env_failing_deps =
     demo_env\<lparr>NativeBundle := (\<lambda>sp. Inr (demo_bundle\<lparr>check_runtime_dependencies :=
       (\<lambda>fs0. Some (Exception ''missing tool''))\<rparr>))\<rparr>"

text \<open>An engine whose build fails, and a permission fix that fails too.\<close>

definition failing_bundle :: native_bundle where
  "failing_bundle =
     demo_bundle\<lparr>write_distributables :=
       (\<lambda>d opts fs0. (Inl (Exception ''build failed''), fs0))\<rparr>"

definition env_failing_perms :: env where
  "env_failing_perms =
     demo_env\<lparr>fix_tree_perms := (\<lambda>d fs0. Some (Exception ''PermissionError''))\<rparr>"

definition env_failing_build_and_perms :: env where
  "env_failing_build_and_perms =
     env_failing_perms\<lparr>NativeBundle := (\<lambda>sp. Inr failing_bundle)\<rparr>"

text \<open>An engine that returns two files of the same name in different directories.\<close>

definition same_name_bundle :: native_bundle where
  "same_name_bundle =
     demo_bundle\<lparr>write_distributables := (\<lambda>d opts fs0.
        (Inr [d @ ''/a/x.zip'', d @ ''/b/x.zip''],
         fs0\<lparr>files := (files fs0)(d @ ''/a/x.zip'' \<mapsto> ''A'', d @ ''/b/x.zip'' \<mapsto> ''B'')\<rparr>))\<rparr>"

definition env_same_name :: env where
  "env_same_name = demo_env\<lparr>NativeBundle := (\<lambda>sp. Inr same_name_bundle)\<rparr>"

text \<open>A copy that fails for the archive, after the installer has been copied.\<close>

definition env_failing_copy :: env where
  "env_failing_copy =
     demo_env\<lparr>copy_fault := (\<lambda>src dst fs0.
        if basename src = ''app.zip'' then Some (Exception ''disk full'') else None)\<rparr>"

text \<open>An engine whose build fails, with a cleanup that works.\<close>

definition env_failing_build :: env where
  "env_failing_build = demo_env\<lparr>NativeBundle := (\<lambda>sp. Inr failing_bundle)\<rparr>"

text \<open>An engine whose build fails, and a deletion that fails too.\<close>

definition env_failing_build_and_rmtree :: env where
  "env_failing_build_and_rmtree =
     env_failing_build\<lparr>rmtree_fault := (\<lambda>d fs0. Some (Exception ''OSError''))\<rparr>"

text \<open>An engine that builds nothing.\<close>

definition env_no_artifacts :: env where
  "env_no_artifacts =
     demo_env\<lparr>NativeBundle := (\<lambda>sp. Inr (demo_bundle\<lparr>write_distributables :=
       (\<lambda>d opts fs0. (Inr [], fs0\<lparr>isdir := (isdir fs0)(d := True)\<rparr>))\<rparr>))\<rparr>"

text \<open>The file system of the examples once \<open>mkdtemp\<close> has run.\<close>

definition fs_tmp :: filesystem where
  "fs_tmp = fs_start\<lparr>isdir := (isdir fs_start)(''/tmp/styrene0'' := True)\<rparr>"

section \<open>Properties\<close>

text \<open>The definitions that evaluating an example run unfolds.\<close>

lemmas example_defs =
  fs_start_def world_start_def opts_default_def opts_no_build_def opts_out_def
  demo_bundle_def demo_env_def env_failing_deps_def failing_bundle_def env_failing_perms_def
  env_failing_build_and_perms_def same_name_bundle_def env_same_name_def env_failing_copy_def
  env_failing_build_def env_failing_build_and_rmtree_def env_no_artifacts_def fs_tmp_def


lemmas run_defs =
  process_spec_file_def try_body_def finally_block_def mkdtemp_def copy_def rmtree_def
  called_def log_to_def truthy_def join_def basename_def inside_def Let_def

subsection \<open>The formatter and the logging set-up\<close>

lemma match_lit2:
  "match_here [Once (Lit a), Once (Lit b)] s = placeholder_lit [a, b] s"
  by (cases s; cases "tl s") (auto simp: placeholder_lit_def)

lemma match_many_once:
  "\<not> atom_ok a x \<Longrightarrow>
   match_here [Many a, Once (Lit x)] s =
     (case drop (length (takeWhile (atom_ok a) s)) s of
        [] \<Rightarrow> None
      | y # _ \<Rightarrow> if y = x then Some (Suc (length (takeWhile (atom_ok a) s))) else None)"
  by (induction s) (auto split: list.splits option.splits)

lemma match_num:
  "conv \<notin> set ''0123456789.+'' \<Longrightarrow>
   match_here [Once (Lit CHR ''%''), Optional (Lit CHR ''+''), Many (Class ''0123456789.''),
      Once (Lit conv)] s = placeholder_num conv s"
proof (cases s)
  case Nil
  then show ?thesis by (simp add: placeholder_num_def)
next
  case (Cons c t)
  assume conv: "conv \<notin> set ''0123456789.+''"
  have nok: "\<not> atom_ok (Class ''0123456789.'') conv"
    using conv by simp
  have ok: "atom_ok (Class ''0123456789.'') = digit_or_dot"
    by (rule ext) (simp add: digit_or_dot_def)
  have plus: "match_here [Many (Class ''0123456789.''), Once (Lit conv)] (CHR ''+'' # u) = None" for u
    using conv by auto
  show ?thesis
  proof (cases t)
    case Nil
    with Cons show ?thesis by (simp add: placeholder_num_def)
  next
    case (Cons x u)
    show ?thesis
    proof (cases "x = CHR ''+''")
      case True
      with Cons \<open>s = c # t\<close> show ?thesis
        using plus [of u]
        by (simp add: placeholder_num_def match_many_once [OF nok] ok Let_def
            del: match_here.simps(7)
            split: list.splits option.splits)
    next
      case False
      with Cons \<open>s = c # t\<close> show ?thesis
        by (simp add: placeholder_num_def match_many_once [OF nok, of "x # u"] ok Let_def
            del: match_here.simps(7)
            split: list.splits option.splits)
    qed
  qed
qed

lemma re_sub_wrap_each:
  assumes "\<And>s. match_here re s = kind s" and "\<And>s. kind s \<noteq> Some 0"
  shows "re_sub re replace_bold s = wrap_each kind s"
  using assms
proof (induction kind s rule: wrap_each.induct)
  case (1 kind)
  then show ?case
    by (subst re_sub.simps) (simp split: option.splits nat.splits)
next
  case (2 kind c t)
  have rb: "replace_bold (c # u) = BOLD @ (c # u) @ BOLDOFF" for u
    by (simp add: replace_bold_def)
  from 2 show ?case
    by (subst re_sub.simps) (simp add: rb split: option.splits nat.splits)
qed


lemma placeholder_lit_nonempty: "tok \<noteq> [] \<Longrightarrow> placeholder_lit tok s \<noteq> Some 0"
  by (simp add: placeholder_lit_def)

lemma placeholder_num_nonempty: "placeholder_num conv s \<noteq> Some 0"
  by (simp add: placeholder_num_def Let_def split: list.splits)

lemma re_sub_re_r: "re_sub re_r replace_bold s = wrap_each (placeholder_lit ''%r'') s"
  by (rule re_sub_wrap_each) (simp_all add: re_r_def match_lit2 placeholder_lit_nonempty)

lemma re_sub_re_s: "re_sub re_s replace_bold s = wrap_each (placeholder_lit ''%s'') s"
  by (rule re_sub_wrap_each) (simp_all add: re_s_def match_lit2 placeholder_lit_nonempty)

lemma re_sub_re_d: "re_sub re_d replace_bold s = wrap_each (placeholder_num CHR ''d'') s"
  by (rule re_sub_wrap_each) (simp_all add: re_d_def match_num placeholder_num_nonempty)

lemma re_sub_re_f: "re_sub re_f replace_bold s = wrap_each (placeholder_num CHR ''f'') s"
  by (rule re_sub_wrap_each) (simp_all add: re_f_def match_num placeholder_num_nonempty)

text \<open>
  Claim C8. With colour enabled, the message is passed through the four patterns in the
  order \<open>%r\<close>, \<open>%s\<close>, integer, float, each pattern running over the whole string left
  by the one before it; the result is the message in which every placeholder of the kind
  at hand is wrapped in the bold start and stop codes. The output is a function of the
  message alone.
\<close>

theorem format_msg_wraps_each_kind_in_order:
  "format_msg msg =
     wrap_each (placeholder_num CHR ''f'')
       (wrap_each (placeholder_num CHR ''d'')
          (wrap_each (placeholder_lit ''%s'')
             (wrap_each (placeholder_lit ''%r'') msg)))"
  by (simp add: format_msg_def token_formatting_def
      re_sub_re_r re_sub_re_s re_sub_re_d re_sub_re_f)

text \<open>The message of the design's example, computed through the theorem.\<close>

theorem format_msg_found_packages:
  "format_msg ''found %d packages'' = ''found '' @ BOLD @ ''%d'' @ BOLDOFF @ '' packages''"
  using format_msg_wraps_each_kind_in_order [of "''found %d packages''"]
  by (simp add: placeholder_lit_def placeholder_num_def digit_or_dot_def BOLD_def BOLDOFF_def)





subsection \<open>\<open>process_spec_file\<close>\<close>

lemma called_sel [simp]:
  "fs (called c w) = fs w"
  "log (called c w) = log w"
  "calls (called c w) = calls w @ [c]"
  "root_level (called c w) = root_level w"
  "colour_enabled (called c w) = colour_enabled w"
  by (simp_all add: called_def)

lemma log_to_sel [simp]:
  "fs (log_to l m a e w) = fs w"
  "log (log_to l m a e w) = log w @ [\<lparr>lr_level = l, lr_msg = m, lr_args = a, lr_exc = e\<rparr>]"
  "calls (log_to l m a e w) = calls w"
  "root_level (log_to l m a e w) = root_level w"
  "colour_enabled (log_to l m a e w) = colour_enabled w"
  by (simp_all add: log_to_def)

text \<open>
  Claim C3, amended. With \<open>output_dir\<close> unset and both \<open>build_zip\<close> and
  \<open>build_exe\<close> false, and provided the engine's constructor and its dependency check
  return normally, \<open>process_spec_file\<close> returns normally, issues exactly the two
  warnings, leaves the file system as it is, and calls nothing but the constructor and the
  dependency check: no temporary directory, no \<open>write_distributables\<close>, no copy. The
  guard is reached after the constructor and the dependency check, and before the build.
\<close>

theorem no_build_guard:
  assumes "\<not> truthy (output_dir opts)" and "\<not> build_zip opts" and "\<not> build_exe opts"
    and "NativeBundle env sp = Inr b"
    and "check_runtime_dependencies b (fs w) = None"
  shows "process_spec_file env sp opts w =
    (Inr (),
     w\<lparr>log := log w @
          [\<lparr>lr_level = WARNING, lr_msg = no_build_warning_1, lr_args = [], lr_exc = None\<rparr>,
           \<lparr>lr_level = WARNING, lr_msg = no_build_warning_2, lr_args = [], lr_exc = None\<rparr>],
       calls := calls w @ [Construct, CheckDeps]\<rparr>)"
  using assms by (simp add: process_spec_file_def Let_def called_def log_to_def)

theorem no_build_guard_witness:
  "\<not> truthy (output_dir opts_no_build) \<and> \<not> build_zip opts_no_build \<and>
   \<not> build_exe opts_no_build \<and>
   fst (process_spec_file demo_env [] opts_no_build world_start) = Inr () \<and>
   map lr_level (log (snd (process_spec_file demo_env [] opts_no_build world_start))) = [30, 30] \<and>
   calls (snd (process_spec_file demo_env [] opts_no_build world_start)) = [Construct, CheckDeps] \<and>
   \<not> isdir (fs (snd (process_spec_file demo_env [] opts_no_build world_start))) ''/tmp/styrene0''"
  using no_build_guard [of opts_no_build demo_env "[]" demo_bundle world_start]
  by (simp add: example_defs truthy_def WARNING_def)

text \<open>
  Claim C3 as stated fails when the dependency check raises: the options are the no-build
  ones, yet the function raises and issues no warning, the engine having been called
  first.
\<close>

theorem no_build_guard_counterexample:
  "\<not> truthy (output_dir opts_no_build) \<and> \<not> build_zip opts_no_build \<and>
   \<not> build_exe opts_no_build \<and>
   fst (process_spec_file env_failing_deps [] opts_no_build world_start) =
     Inl (Exception ''missing tool'') \<and>
   log (snd (process_spec_file env_failing_deps [] opts_no_build world_start)) = [] \<and>
   calls (snd (process_spec_file env_failing_deps [] opts_no_build world_start)) =
     [Construct, CheckDeps]"
  by (simp add: example_defs run_defs)

text \<open>
  Claim C7. With \<open>output_dir\<close> set (a non-empty string, as the test
  \<open>not output_dir\<close> reads it), the only calls are the constructor, the dependency check
  and \<open>write_distributables\<close> on that directory: no temporary directory is made, nothing
  is copied out or deleted, and the outcome and the file system are those the engine's call
  left. The directory is made by the engine: under its contract it exists after a run that
  returns.
\<close>

theorem output_dir_mode:
  assumes "output_dir opts = Some d" and "d \<noteq> []"
  shows
   "calls (snd (process_spec_file env sp opts w)) \<in>
      {calls w @ [Construct], calls w @ [Construct, CheckDeps],
       calls w @ [Construct, CheckDeps, WriteDist d]} \<and>
    (\<forall>b r fs1.
       NativeBundle env sp = Inr b \<and> check_runtime_dependencies b (fs w) = None \<and>
       write_distributables b d opts (fs w) = (r, fs1) \<longrightarrow>
       process_spec_file env sp opts w =
         ((case r of Inl e \<Rightarrow> Inl e | Inr written \<Rightarrow> Inr ()),
          w\<lparr>fs := fs1, calls := calls w @ [Construct, CheckDeps, WriteDist d]\<rparr>) \<and>
       (creates_output_dir b \<and> fst (process_spec_file env sp opts w) = Inr () \<longrightarrow>
          isdir (fs (snd (process_spec_file env sp opts w))) d))"
proof (intro conjI allI impI)
  show "calls (snd (process_spec_file env sp opts w)) \<in>
      {calls w @ [Construct], calls w @ [Construct, CheckDeps],
       calls w @ [Construct, CheckDeps, WriteDist d]}"
    using assms
    by (simp add: process_spec_file_def Let_def truthy_def
        split: sum.splits option.splits prod.splits)
next
  fix b r fs1
  assume h: "NativeBundle env sp = Inr b \<and> check_runtime_dependencies b (fs w) = None \<and>
       write_distributables b d opts (fs w) = (r, fs1)"
  show eq: "process_spec_file env sp opts w =
         ((case r of Inl e \<Rightarrow> Inl e | Inr written \<Rightarrow> Inr ()),
          w\<lparr>fs := fs1, calls := calls w @ [Construct, CheckDeps, WriteDist d]\<rparr>)"
    using assms h
    by (simp add: process_spec_file_def Let_def truthy_def called_def split: sum.splits)
  assume c: "creates_output_dir b \<and> fst (process_spec_file env sp opts w) = Inr ()"
  then obtain written where "r = Inr written"
    using eq by (cases r) auto
  with h c show "isdir (fs (snd (process_spec_file env sp opts w))) d"
    unfolding eq creates_output_dir_def by auto
qed

theorem output_dir_mode_witness:
  "output_dir opts_out = Some ''/out'' \<and>
   creates_output_dir demo_bundle \<and>
   \<not> isdir (fs world_start) ''/out'' \<and>
   fst (process_spec_file demo_env [] opts_out world_start) = Inr () \<and>
   calls (snd (process_spec_file demo_env [] opts_out world_start)) =
     [Construct, CheckDeps, WriteDist ''/out''] \<and>
   isdir (fs (snd (process_spec_file demo_env [] opts_out world_start))) ''/out'' \<and>
   files (fs (snd (process_spec_file demo_env [] opts_out world_start))) ''/out/app.exe'' =
     Some ''MZ''"
proof -
  have c: "creates_output_dir demo_bundle"
    by (auto simp: creates_output_dir_def demo_bundle_def)
  have o: "output_dir opts_out = Some ''/out''"
    by (simp add: opts_out_def)
  have w: "write_distributables demo_bundle ''/out'' opts_out (fs world_start) =
      (Inr [''/out/app.exe'', ''/out/app.zip''],
       (fs world_start)\<lparr>files := (files (fs world_start))(''/out/app.exe'' \<mapsto> ''MZ'',
          ''/out/app.zip'' \<mapsto> ''PK''), isdir := (isdir (fs world_start))(''/out'' := True)\<rparr>)"
    by (simp add: demo_bundle_def join_def)
  from output_dir_mode [OF o, of demo_env "[]" world_start] c w
  show ?thesis
    by (simp add: o example_defs)
qed

lemma finally_block_removes:
  assumes "\<And>fs0. fix_tree_perms env tmp_dir fs0 = None"
    and "\<And>fs0. rmtree_fault env tmp_dir fs0 = None"
  shows "\<not> isdir (fs (snd (finally_block env tmp_dir in_flight w))) tmp_dir"
  using assms
  by (simp add: finally_block_def rmtree_def Let_def inside_def split: option.splits)

text \<open>
  Claim C1, amended. In a run that created the temporary directory, and provided
  \<open>fix_tree_perms\<close> and \<open>rmtree\<close> do not fail on it, the directory does not exist when
  \<open>process_spec_file\<close> is left, whatever the \<open>try\<close> body did: returned, raised in
  \<open>write_distributables\<close>, or raised in the copy loop.
\<close>

theorem ephemeral_dir_removed:
  assumes "\<not> truthy (output_dir opts)" and "build_zip opts \<or> build_exe opts"
    and "NativeBundle env sp = Inr b"
    and "check_runtime_dependencies b (fs w) = None"
    and "mkdtemp env ''styrene'' (fs w) = Inr (tmp_dir, fs1)"
    and "\<And>fs0. fix_tree_perms env tmp_dir fs0 = None"
    and "\<And>fs0. rmtree_fault env tmp_dir fs0 = None"
  shows "\<not> isdir (fs (snd (process_spec_file env sp opts w))) tmp_dir"
  using assms(1-5) finally_block_removes [OF assms(6,7)]
  by (simp add: process_spec_file_def Let_def split: prod.splits)

theorem ephemeral_dir_removed_witness:
  "\<not> truthy (output_dir opts_default) \<and>
   mkdtemp demo_env ''styrene'' (fs world_start) =
     Inr (''/tmp/styrene0'', (fs world_start)\<lparr>isdir := (isdir (fs world_start))(''/tmp/styrene0'' := True)\<rparr>) \<and>
   fst (process_spec_file demo_env [] opts_default world_start) = Inr () \<and>
   \<not> isdir (fs (snd (process_spec_file demo_env [] opts_default world_start))) ''/tmp/styrene0'' \<and>
   fst (process_spec_file (demo_env\<lparr>NativeBundle := (\<lambda>sp. Inr failing_bundle)\<rparr>) [] opts_default
     world_start) = Inl (Exception ''build failed'') \<and>
   \<not> isdir (fs (snd (process_spec_file (demo_env\<lparr>NativeBundle := (\<lambda>sp. Inr failing_bundle)\<rparr>) []
     opts_default world_start))) ''/tmp/styrene0'' \<and>
   fst (process_spec_file env_failing_copy [] opts_default world_start) =
     Inl (Exception ''disk full'') \<and>
   \<not> isdir (fs (snd (process_spec_file env_failing_copy [] opts_default world_start)))
     ''/tmp/styrene0''"
proof -
  have m: "mkdtemp e ''styrene'' (fs world_start) =
     Inr (''/tmp/styrene0'', (fs world_start)\<lparr>isdir := (isdir (fs world_start))(''/tmp/styrene0'' := True)\<rparr>)"
    if "mkdtemp_name e = mkdtemp_name demo_env" for e
    using that by (simp add: mkdtemp_def example_defs)
  have 1: "\<not> isdir (fs (snd (process_spec_file demo_env [] opts_default world_start))) ''/tmp/styrene0''"
    by (rule ephemeral_dir_removed [where b = demo_bundle, OF _ _ _ _ m])
      (simp_all add: example_defs truthy_def)
  have 2: "\<not> isdir (fs (snd (process_spec_file (demo_env\<lparr>NativeBundle := (\<lambda>sp. Inr failing_bundle)\<rparr>) []
     opts_default world_start))) ''/tmp/styrene0''"
    by (rule ephemeral_dir_removed [where b = failing_bundle, OF _ _ _ _ m])
      (simp_all add: example_defs truthy_def)
  have 3: "\<not> isdir (fs (snd (process_spec_file env_failing_copy [] opts_default world_start)))
     ''/tmp/styrene0''"
    by (rule ephemeral_dir_removed [where b = demo_bundle, OF _ _ _ _ m])
      (simp_all add: example_defs truthy_def)
  have r1: "fst (process_spec_file demo_env [] opts_default world_start) = Inr ()"
    by (simp add: example_defs run_defs)
  have r2: "fst (process_spec_file (demo_env\<lparr>NativeBundle := (\<lambda>sp. Inr failing_bundle)\<rparr>) [] opts_default
     world_start) = Inl (Exception ''build failed'')"
    by (simp add: example_defs run_defs)
  have r3: "fst (process_spec_file env_failing_copy [] opts_default world_start) =
     Inl (Exception ''disk full'')"
    by (simp add: example_defs run_defs)
  show ?thesis
    using 1 2 3 r1 r2 r3 m [of demo_env] by (simp add: opts_default_def truthy_def)
qed

text \<open>
  Claim C1 as stated fails when the cleanup itself raises: \<open>fix_tree_perms\<close> fails,
  \<open>rmtree\<close> is never reached, and the directory is still there.
\<close>

theorem ephemeral_dir_left_counterexample:
  "\<not> truthy (output_dir opts_default) \<and> (build_zip opts_default \<or> build_exe opts_default) \<and>
   Mkdtemp ''styrene'' \<in> set (calls (snd (process_spec_file env_failing_perms [] opts_default world_start))) \<and>
   \<not> isdir (fs world_start) ''/tmp/styrene0'' \<and>
   isdir (fs (snd (process_spec_file env_failing_perms [] opts_default world_start))) ''/tmp/styrene0''"
  by (simp add: example_defs run_defs)

text \<open>
  Claim C2, amended. An error raised in the cleanup is neither caught nor logged by
  \<open>process_spec_file\<close>: it leaves the function, in place of any exception that was in
  flight from the \<open>try\<close> body, and the only record issued there is the \<open>Cleaning up\<close>
  one of level \<open>INFO\<close>. When \<open>fix_tree_perms\<close> raises, \<open>rmtree\<close> is not called; it is
  called only after \<open>fix_tree_perms\<close> has returned. In \<open>main\<close>, an \<open>Exception\<close> that
  leaves \<open>process_spec_file\<close>, from the cleanup or from the \<open>try\<close> body alike, is logged
  as one record of level \<open>ERROR\<close> that carries it, and the exit status is 2.
\<close>

theorem cleanup_error_propagates:
  assumes "\<not> truthy (output_dir opts)" and "build_zip opts \<or> build_exe opts"
    and "NativeBundle env sp = Inr b"
    and "check_runtime_dependencies b (fs w) = None"
    and "mkdtemp env ''styrene'' (fs w) = Inr (tmp_dir, fs1)"
    and "try_body env b opts (getcwd env) tmp_dir (entering_try w fs1) = (in_flight, w4)"
  shows
   "(\<forall>e. fix_tree_perms env tmp_dir (fs w4) = Some e \<longrightarrow>
        process_spec_file env sp opts w =
          (Inl e, called (FixPerms tmp_dir) (log_to INFO cleaning_up [tmp_dir] None w4))) \<and>
    (\<forall>e fs2. fix_tree_perms env tmp_dir (fs w4) = None \<and>
        rmtree env tmp_dir (fs w4) = (Some e, fs2) \<longrightarrow>
        process_spec_file env sp opts w =
          (Inl e, (called (Rmtree tmp_dir) (called (FixPerms tmp_dir)
                    (log_to INFO cleaning_up [tmp_dir] None w4)))\<lparr>fs := fs2\<rparr>)) \<and>
    (\<forall>f rest w0 m.
        w = called (Read f) w0 \<and> read_spec env f (fs w0) = Inr sp \<and>
        fst (process_spec_file env sp opts w) = Inl (Exception m) \<longrightarrow>
        process_bundles env opts (f # rest) w0 =
          (Exit 2,
           log_to ERROR unexpected_error [f] (Some (Exception m))
             (snd (process_spec_file env sp opts w))))"
proof (intro conjI allI impI)
  fix e
  assume "fix_tree_perms env tmp_dir (fs w4) = Some e"
  with assms show "process_spec_file env sp opts w =
      (Inl e, called (FixPerms tmp_dir) (log_to INFO cleaning_up [tmp_dir] None w4))"
    by (simp add: process_spec_file_def finally_block_def Let_def)
next
  fix e fs2
  assume "fix_tree_perms env tmp_dir (fs w4) = None \<and>
    rmtree env tmp_dir (fs w4) = (Some e, fs2)"
  with assms show "process_spec_file env sp opts w =
      (Inl e, (called (Rmtree tmp_dir) (called (FixPerms tmp_dir)
                (log_to INFO cleaning_up [tmp_dir] None w4)))\<lparr>fs := fs2\<rparr>)"
    by (simp add: process_spec_file_def finally_block_def Let_def)
next
  fix f rest w0 m
  assume h: "w = called (Read f) w0 \<and> read_spec env f (fs w0) = Inr sp \<and>
    fst (process_spec_file env sp opts w) = Inl (Exception m)"
  from h have w: "w = called (Read f) w0"
    by blast
  from h have r: "fst (process_spec_file env sp opts w) = Inl (Exception m)"
    by blast
  from h have rd: "read_spec env f (fs w0) = Inr sp"
    by blast
  obtain w2 where "process_spec_file env sp opts (called (Read f) w0) = (Inl (Exception m), w2)"
    using r unfolding w by (cases "process_spec_file env sp opts (called (Read f) w0)") simp
  with rd show "process_bundles env opts (f # rest) w0 =
      (Exit 2,
       log_to ERROR unexpected_error [f] (Some (Exception m))
         (snd (process_spec_file env sp opts w)))"
    unfolding w by (simp add: Let_def)
qed

theorem cleanup_error_propagates_witness:
  "\<not> truthy (output_dir opts_default) \<and>
   fst (try_body env_failing_build_and_perms failing_bundle opts_default ''/cwd'' ''/tmp/styrene0''
     (entering_try (called (Read ''a.cfg'') world_start) fs_tmp)) =
     Some (Exception ''build failed'') \<and>
   fix_tree_perms env_failing_build_and_perms ''/tmp/styrene0'' fs_tmp =
     Some (Exception ''PermissionError'') \<and>
   fst (process_spec_file env_failing_build_and_perms [] opts_default
     (called (Read ''a.cfg'') world_start)) = Inl (Exception ''PermissionError'') \<and>
   calls (snd (process_spec_file env_failing_build_and_perms [] opts_default
     (called (Read ''a.cfg'') world_start))) =
     [Read ''a.cfg'', Construct, CheckDeps, Mkdtemp ''styrene'', WriteDist ''/tmp/styrene0'',
      FixPerms ''/tmp/styrene0''] \<and>
   fst (process_bundles env_failing_build_and_perms opts_default [''a.cfg'', ''c.cfg'']
     world_start) = Exit 2 \<and>
   map lr_exc (error_records (snd (process_bundles env_failing_build_and_perms opts_default
     [''a.cfg'', ''c.cfg''] world_start))) = [Some (Exception ''PermissionError'')] \<and>
   fst (try_body env_failing_build_and_rmtree failing_bundle opts_default ''/cwd''
     ''/tmp/styrene0'' (entering_try (called (Read ''a.cfg'') world_start) fs_tmp)) =
     Some (Exception ''build failed'') \<and>
   fst (process_spec_file env_failing_build_and_rmtree [] opts_default
     (called (Read ''a.cfg'') world_start)) = Inl (Exception ''OSError'') \<and>
   calls (snd (process_spec_file env_failing_build_and_rmtree [] opts_default
     (called (Read ''a.cfg'') world_start))) =
     [Read ''a.cfg'', Construct, CheckDeps, Mkdtemp ''styrene'', WriteDist ''/tmp/styrene0'',
      FixPerms ''/tmp/styrene0'', Rmtree ''/tmp/styrene0''] \<and>
   map lr_level (log (snd (process_spec_file env_failing_build_and_rmtree [] opts_default
     (called (Read ''a.cfg'') world_start)))) = [INFO]"
proof -
  let ?w = "called (Read ''a.cfg'') world_start"
  let ?w3 = "entering_try ?w fs_tmp"
  let ?w4 = "called (WriteDist ''/tmp/styrene0'') ?w3"
  have o: "\<not> truthy (output_dir opts_default)" "build_zip opts_default \<or> build_exe opts_default"
    by (simp_all add: example_defs truthy_def)
  have c: "check_runtime_dependencies failing_bundle (fs ?w) = None"
    by (simp add: example_defs)
  have t: "try_body e failing_bundle opts_default (getcwd e) ''/tmp/styrene0'' ?w3 =
      (Some (Exception ''build failed''), ?w4)" for e
    by (simp add: try_body_def example_defs Let_def)
  have cwd: "getcwd env_failing_build_and_perms = ''/cwd''"
    "getcwd env_failing_build_and_rmtree = ''/cwd''"
    by (simp_all add: example_defs)
  have 1: "NativeBundle env_failing_build_and_perms [] = Inr failing_bundle"
    "mkdtemp env_failing_build_and_perms ''styrene'' (fs ?w) = Inr (''/tmp/styrene0'', fs_tmp)"
    "fix_tree_perms env_failing_build_and_perms ''/tmp/styrene0'' (fs ?w4) =
       Some (Exception ''PermissionError'')"
    by (simp_all add: mkdtemp_def example_defs)
  have 2: "NativeBundle env_failing_build_and_rmtree [] = Inr failing_bundle"
    "mkdtemp env_failing_build_and_rmtree ''styrene'' (fs ?w) = Inr (''/tmp/styrene0'', fs_tmp)"
    "fix_tree_perms env_failing_build_and_rmtree ''/tmp/styrene0'' (fs ?w4) = None \<and>
     rmtree env_failing_build_and_rmtree ''/tmp/styrene0'' (fs ?w4) =
       (Some (Exception ''OSError''), fs_tmp)"
    by (simp_all add: mkdtemp_def rmtree_def example_defs)
  note T = cleanup_error_propagates [OF o 1(1) c 1(2) t]
  note A = T [THEN conjunct1, rule_format, OF 1(3)]
  note B = cleanup_error_propagates [OF o 2(1) c 2(2) t, THEN conjunct2, THEN conjunct1,
      rule_format, OF 2(3)]
  have m: "?w = called (Read ''a.cfg'') world_start \<and>
    read_spec env_failing_build_and_perms ''a.cfg'' (fs world_start) = Inr [] \<and>
    fst (process_spec_file env_failing_build_and_perms [] opts_default ?w) =
      Inl (Exception ''PermissionError'')"
    unfolding A by (simp add: example_defs)
  note C = T [THEN conjunct2, THEN conjunct2, rule_format, OF m, of "[''c.cfg'']"]
  have fp: "fix_tree_perms env_failing_build_and_perms ''/tmp/styrene0'' fs_tmp =
     Some (Exception ''PermissionError'')"
    by (simp add: example_defs)
  have main: "fst (process_bundles env_failing_build_and_perms opts_default [''a.cfg'', ''c.cfg'']
      world_start) = Exit 2 \<and>
    map lr_exc (error_records (snd (process_bundles env_failing_build_and_perms opts_default
      [''a.cfg'', ''c.cfg''] world_start))) = [Some (Exception ''PermissionError'')]"
    unfolding C A
    by (simp add: error_records_def world_start_def INFO_def ERROR_def)
  show ?thesis
    unfolding A B using t [of env_failing_build_and_perms] t [of env_failing_build_and_rmtree] main
    by (simp add: o cwd fp INFO_def world_start_def del: process_bundles.simps)
qed

text \<open>
  Claim C2 as stated fails where the build raises and then \<open>fix_tree_perms\<close> raises:
  the build error is replaced by the cleanup error, no record of the cleanup error is
  issued, and the deletion is not attempted.
\<close>

theorem cleanup_error_masks_counterexample:
  "fst (try_body env_failing_build_and_perms failing_bundle opts_default ''/cwd'' ''/tmp/styrene0''
     (entering_try world_start fs_tmp)) = Some (Exception ''build failed'') \<and>
   fst (process_spec_file env_failing_build_and_perms [] opts_default world_start) =
     Inl (Exception ''PermissionError'') \<and>
   Rmtree ''/tmp/styrene0'' \<notin>
     set (calls (snd (process_spec_file env_failing_build_and_perms [] opts_default world_start))) \<and>
   isdir (fs (snd (process_spec_file env_failing_build_and_perms [] opts_default world_start)))
     ''/tmp/styrene0'' \<and>
   map lr_level (log (snd (process_spec_file env_failing_build_and_perms [] opts_default
     world_start))) = [INFO] \<and>
   map lr_exc (log (snd (process_spec_file env_failing_build_and_perms [] opts_default
     world_start))) = [None]"
  by (simp add: example_defs run_defs)

lemma basename_no_slash: "CHR ''/'' \<notin> set (basename p)"
  by (auto simp: basename_def dest: set_takeWhileD)

lemma basename_append_slash_free:
  assumes "CHR ''/'' \<notin> set b"
  shows "basename (a @ CHR ''/'' # b) = b" and "basename b = b"
proof -
  have all: "\<And>x. x \<in> set (rev b) \<Longrightarrow> x \<noteq> CHR ''/''"
    using assms by auto
  have "takeWhile (\<lambda>c. c \<noteq> CHR ''/'') (rev b @ CHR ''/'' # rev a) =
      rev b @ takeWhile (\<lambda>c. c \<noteq> CHR ''/'') (CHR ''/'' # rev a)"
    by (rule takeWhile_append2) (rule all)
  then show "basename (a @ CHR ''/'' # b) = b"
    by (simp add: basename_def)
  have "takeWhile (\<lambda>c. c \<noteq> CHR ''/'') (rev b) = rev b"
    unfolding takeWhile_eq_all_conv using all by blast
  then show "basename b = b"
    unfolding basename_def by (simp only: rev_rev_ident)
qed

lemma basename_join:
  assumes "CHR ''/'' \<notin> set b"
  shows "basename (join a b) = b"
proof -
  have nb: "take 1 b \<noteq> ''/''"
    using assms by (cases b) auto
  show ?thesis
  proof (cases "a = []")
    case True
    with nb assms show ?thesis
      by (simp add: join_def basename_append_slash_free)
  next
    case False
    show ?thesis
    proof (cases "last a = CHR ''/''")
      case True
      with False have "a = butlast a @ ''/''"
        by (metis append_butlast_last_id)
      then have "a @ b = butlast a @ CHR ''/'' # b"
        by (metis append.assoc append_Cons append_Nil)
      then have "basename (a @ b) = b"
        using basename_append_slash_free(1) [OF assms] by metis
      with nb True show ?thesis
        by (simp add: join_def)
    next
      case False
      with nb \<open>a \<noteq> []\<close> assms show ?thesis
        by (simp add: join_def basename_append_slash_free)
    qed
  qed
qed

lemma basename_dest [simp]: "basename (join a (basename p)) = basename p"
  by (rule basename_join) (rule basename_no_slash)

lemma dest_inj: "join a (basename p) = join a (basename q) \<Longrightarrow> basename p = basename q"
  by (metis basename_dest)

lemma copy_success:
  assumes "copy env src dst fs0 = Inr fs1" and "\<not> isdir fs0 dst"
  shows "files fs0 src \<noteq> None" and "src \<noteq> dst"
    and "fs1 = fs0\<lparr>files := (files fs0)(dst := files fs0 src)\<rparr>"
  using assms
  by (auto simp: copy_def Let_def split: option.splits if_splits)

lemma copy_keeps:
  assumes "copy env src dst fs0 = Inr fs1"
  shows "isdir fs1 = isdir fs0" and "files fs0 x \<noteq> None \<Longrightarrow> files fs1 x \<noteq> None"
  using assms
  by (auto simp: copy_def Let_def split: option.splits if_splits)



lemma copy_distfiles_exact:
  assumes "copy_distfiles env out_dir ps w = (None, w')"
    and "distinct (map basename ps)"
    and "\<forall>p\<in>set ps. \<not> isdir (fs w) (join out_dir (basename p))"
  shows "(\<forall>p\<in>set ps. files (fs w) p \<noteq> None \<and>
            files (fs w') (join out_dir (basename p)) = files (fs w) p \<and>
            files (fs w') p = files (fs w) p) \<and>
         (\<forall>q. q \<notin> (\<lambda>p. join out_dir (basename p)) ` set ps \<longrightarrow> files (fs w') q = files (fs w) q)"
  using assms
proof (induction ps arbitrary: w)
  case Nil
  then show ?case by simp
next
  case (Cons a ps)
  let ?d = "\<lambda>p. join out_dir (basename p)"
  from Cons.prems(1) obtain fs1 where
    c: "copy env a (?d a) (fs w) = Inr fs1" and
    r: "copy_distfiles env out_dir ps ((called (Copy a (?d a)) w)\<lparr>fs := fs1\<rparr>) = (None, w')"
    by (auto simp: Let_def split: sum.splits)
  let ?w1 = "(called (Copy a (?d a)) w)\<lparr>fs := fs1\<rparr>"
  from Cons.prems(3) have nd: "\<not> isdir (fs w) (?d a)" by simp
  note cs = copy_success [OF c nd]
  have f1: "files (fs ?w1) = (files (fs w))(?d a := files (fs w) a)"
    using cs(3) by simp
  have d: "isdir (fs ?w1) = isdir (fs w)"
    using copy_keeps(1) [OF c] by simp
  have ih: "(\<forall>p\<in>set ps. files (fs ?w1) p \<noteq> None \<and>
            files (fs w') (?d p) = files (fs ?w1) p \<and> files (fs w') p = files (fs ?w1) p) \<and>
         (\<forall>q. q \<notin> ?d ` set ps \<longrightarrow> files (fs w') q = files (fs ?w1) q)"
    using Cons.IH [OF r] Cons.prems(2,3) d by simp
  have da: "?d a \<notin> ?d ` set ps"
    using Cons.prems(2) dest_inj [of out_dir a] by force
  have src: "p \<noteq> ?d a" if "p \<in> set ps" for p
  proof
    assume "p = ?d a"
    then have "basename p = basename a" by simp
    with that have "basename a \<in> basename ` set ps" by (metis imageI)
    with Cons.prems(2) show False by simp
  qed
  have a_not_dest: "a \<notin> ?d ` set ps"
  proof
    assume "a \<in> ?d ` set ps"
    then obtain p where "p \<in> set ps" "a = ?d p" by blast
    then have "basename a = basename p" by simp
    with \<open>p \<in> set ps\<close> have "basename a \<in> basename ` set ps" by (metis imageI)
    with Cons.prems(2) show False by simp
  qed
  show ?case
  proof (intro conjI ballI allI impI)
    fix p assume p: "p \<in> set (a # ps)"
    show "files (fs w) p \<noteq> None"
      using p cs(1) ih f1 src by (cases "p = a") auto
    show "files (fs w') (?d p) = files (fs w) p"
    proof (cases "p \<in> set ps")
      case True
      with ih f1 src show ?thesis by auto
    next
      case False
      with p have "p = a" by simp
      with ih da f1 show ?thesis by simp
    qed
    show "files (fs w') p = files (fs w) p"
    proof (cases "p \<in> set ps")
      case True
      with ih f1 src show ?thesis by auto
    next
      case False
      with p have "p = a" by simp
      with ih a_not_dest f1 cs(2) show ?thesis by simp
    qed
  next
    fix q assume "q \<notin> ?d ` set (a # ps)"
    with ih f1 show "files (fs w') q = files (fs w) q" by simp
  qed
qed

lemma process_spec_file_ephemeral:
  assumes "\<not> truthy (output_dir opts)" and "build_zip opts \<or> build_exe opts"
    and "NativeBundle env sp = Inr b"
    and "check_runtime_dependencies b (fs w) = None"
    and "mkdtemp env ''styrene'' (fs w) = Inr (tmp_dir, fs1)"
  shows "process_spec_file env sp opts w =
    finally_block env tmp_dir
      (fst (try_body env b opts (getcwd env) tmp_dir (entering_try w fs1)))
      (snd (try_body env b opts (getcwd env) tmp_dir (entering_try w fs1)))"
  using assms by (simp add: process_spec_file_def Let_def split: prod.splits)

lemma try_body_written:
  assumes "write_distributables b tmp_dir opts (fs w) = (Inr written, fs2)"
  shows "try_body env b opts out_dir tmp_dir w =
    copy_distfiles env out_dir written ((called (WriteDist tmp_dir) w)\<lparr>fs := fs2\<rparr>)"
  using assms by (simp add: try_body_def Let_def)

lemma finally_block_outside:
  "\<not> inside tmp_dir x \<Longrightarrow>
   files (fs (snd (finally_block env tmp_dir in_flight w))) x = files (fs w) x"
  by (auto simp: finally_block_def rmtree_def Let_def split: option.splits prod.splits)


lemma finally_block_returns:
  "finally_block env tmp_dir in_flight w = (Inr (), w') \<Longrightarrow> in_flight = None"
  by (auto simp: finally_block_def Let_def split: option.splits prod.splits)

text \<open>
  Claim C5, amended. In a run with a temporary directory that returns normally, where the
  artifacts returned by \<open>write_distributables\<close> have pairwise distinct base names, and
  where no destination (the working directory joined with a base name) is a directory or
  lies inside the temporary directory: the destinations are as many distinct files as there
  are artifacts, each holds the bytes of its artifact, no other file outside the temporary
  directory has changed, and at the end of the \<open>try\<close> body, before the cleanup, every
  artifact is still where the engine wrote it, with the same bytes.
\<close>

theorem artifacts_copied_out:
  assumes "\<not> truthy (output_dir opts)" and "build_zip opts \<or> build_exe opts"
    and "NativeBundle env sp = Inr b"
    and "check_runtime_dependencies b (fs w) = None"
    and "mkdtemp env ''styrene'' (fs w) = Inr (tmp_dir, fs1)"
    and "write_distributables b tmp_dir opts fs1 = (Inr written, fs2)"
    and "process_spec_file env sp opts w = (Inr (), w')"
    and "distinct (map basename written)"
    and "\<forall>p\<in>set written. \<not> isdir fs2 (join (getcwd env) (basename p))"
    and "\<forall>p\<in>set written. \<not> inside tmp_dir (join (getcwd env) (basename p))"
  shows
   "distinct (map (\<lambda>p. join (getcwd env) (basename p)) written) \<and>
    (\<forall>p\<in>set written. files fs2 p \<noteq> None \<and>
       files (fs w') (join (getcwd env) (basename p)) = files fs2 p) \<and>
    (\<forall>q. \<not> inside tmp_dir q \<and> q \<notin> (\<lambda>p. join (getcwd env) (basename p)) ` set written \<longrightarrow>
       files (fs w') q = files fs2 q) \<and>
    (\<forall>p\<in>set written.
       files (fs (snd (try_body env b opts (getcwd env) tmp_dir (entering_try w fs1)))) p =
         files fs2 p)"
proof -
  let ?d = "\<lambda>p. join (getcwd env) (basename p)"
  let ?t = "try_body env b opts (getcwd env) tmp_dir (entering_try w fs1)"
  let ?w3 = "(called (WriteDist tmp_dir) (entering_try w fs1))\<lparr>fs := fs2\<rparr>"
  have fin: "finally_block env tmp_dir (fst ?t) (snd ?t) = (Inr (), w')"
    using process_spec_file_ephemeral [OF assms(1-5)] assms(7) by simp
  then have "fst ?t = None"
    by (rule finally_block_returns)
  moreover have t: "?t = copy_distfiles env (getcwd env) written ?w3"
    by (rule try_body_written) (simp add: assms(6))
  ultimately have c: "copy_distfiles env (getcwd env) written ?w3 = (None, snd ?t)"
    by (simp add: prod_eq_iff)
  have ex: "(\<forall>p\<in>set written. files (fs ?w3) p \<noteq> None \<and>
            files (fs (snd ?t)) (?d p) = files (fs ?w3) p \<and>
            files (fs (snd ?t)) p = files (fs ?w3) p) \<and>
         (\<forall>q. q \<notin> ?d ` set written \<longrightarrow> files (fs (snd ?t)) q = files (fs ?w3) q)"
    by (rule copy_distfiles_exact [OF c assms(8)]) (simp add: assms(9))
  have out: "files (fs w') x = files (fs (snd ?t)) x" if "\<not> inside tmp_dir x" for x
    using finally_block_outside [OF that, of env "fst ?t" "snd ?t"] fin by simp
  have 1: "distinct (map ?d written)"
    using assms(8) by (simp add: distinct_map inj_on_def) (metis dest_inj comp_apply)
  have 2: "\<forall>p\<in>set written. files fs2 p \<noteq> None \<and> files (fs w') (?d p) = files fs2 p"
    using ex out assms(10) by simp
  have 3: "\<forall>q. \<not> inside tmp_dir q \<and> q \<notin> ?d ` set written \<longrightarrow> files (fs w') q = files fs2 q"
    using ex out by simp
  have 4: "\<forall>p\<in>set written. files (fs (snd ?t)) p = files fs2 p"
    using ex by simp
  from 1 2 3 4 show ?thesis by blast
qed



theorem artifacts_copied_out_witness:
  "distinct (map basename [''/tmp/styrene0/app.exe'', ''/tmp/styrene0/app.zip'']) \<and>
   fst (write_distributables demo_bundle ''/tmp/styrene0'' opts_default fs_tmp) =
     Inr [''/tmp/styrene0/app.exe'', ''/tmp/styrene0/app.zip''] \<and>
   fst (process_spec_file demo_env [] opts_default world_start) = Inr () \<and>
   files (fs (snd (process_spec_file demo_env [] opts_default world_start))) ''/cwd/app.exe'' =
     Some ''MZ'' \<and>
   files (fs (snd (process_spec_file demo_env [] opts_default world_start))) ''/cwd/app.zip'' =
     Some ''PK'' \<and>
   files (fs (snd (try_body demo_env demo_bundle opts_default ''/cwd'' ''/tmp/styrene0''
     (entering_try world_start fs_tmp)))) ''/tmp/styrene0/app.exe'' = Some ''MZ'' \<and>
   files (fs (snd (try_body demo_env demo_bundle opts_default ''/cwd'' ''/tmp/styrene0''
     (entering_try world_start fs_tmp)))) ''/tmp/styrene0/app.zip'' = Some ''PK''"
proof -
  let ?written = "[''/tmp/styrene0/app.exe'', ''/tmp/styrene0/app.zip'']"
  let ?fs2 = "snd (write_distributables demo_bundle ''/tmp/styrene0'' opts_default fs_tmp)"
  let ?w' = "snd (process_spec_file demo_env [] opts_default world_start)"
  have h: "\<not> truthy (output_dir opts_default)" "build_zip opts_default \<or> build_exe opts_default"
    "NativeBundle demo_env [] = Inr demo_bundle"
    "check_runtime_dependencies demo_bundle (fs world_start) = None"
    "mkdtemp demo_env ''styrene'' (fs world_start) = Inr (''/tmp/styrene0'', fs_tmp)"
    by (simp_all add: example_defs truthy_def mkdtemp_def)
  have wr: "write_distributables demo_bundle ''/tmp/styrene0'' opts_default fs_tmp =
      (Inr ?written, ?fs2)"
    by (simp add: prod_eq_iff example_defs join_def)
  have ok: "process_spec_file demo_env [] opts_default world_start = (Inr (), ?w')"
    by (simp add: prod_eq_iff example_defs run_defs)
  have d: "distinct (map basename ?written)"
    by (simp add: basename_def)
  have nd: "\<forall>p\<in>set ?written. \<not> isdir ?fs2 (join (getcwd demo_env) (basename p))"
    by (simp add: example_defs join_def basename_def)
  have ni: "\<forall>p\<in>set ?written. \<not> inside ''/tmp/styrene0'' (join (getcwd demo_env) (basename p))"
    by (simp add: example_defs join_def basename_def inside_def)
  have fs2: "files ?fs2 ''/tmp/styrene0/app.exe'' = Some ''MZ''"
    "files ?fs2 ''/tmp/styrene0/app.zip'' = Some ''PK''"
    by (simp_all add: example_defs join_def)
  have cwd: "getcwd demo_env = ''/cwd''"
    by (simp add: demo_env_def)
  have wr1: "fst (write_distributables demo_bundle ''/tmp/styrene0'' opts_default fs_tmp) =
      Inr ?written"
    using wr by (metis fst_conv)
  have ok1: "fst (process_spec_file demo_env [] opts_default world_start) = Inr ()"
    using ok by (metis fst_conv)
  from artifacts_copied_out [OF h wr ok d nd ni] fs2 d wr1 ok1
  show ?thesis
    by (simp add: cwd join_def basename_def)
qed

text \<open>
  Claim C5 as stated fails for two artifacts of the same base name: the run returns
  normally, both are copied to the one destination, and the file there holds the bytes of
  the second, not of the first.
\<close>

theorem same_name_artifacts_counterexample:
  "fst (write_distributables same_name_bundle ''/tmp/styrene0'' opts_default fs_tmp) =
     Inr [''/tmp/styrene0/a/x.zip'', ''/tmp/styrene0/b/x.zip''] \<and>
   files (snd (write_distributables same_name_bundle ''/tmp/styrene0'' opts_default fs_tmp))
     ''/tmp/styrene0/a/x.zip'' = Some ''A'' \<and>
   fst (process_spec_file env_same_name [] opts_default world_start) = Inr () \<and>
   join ''/cwd'' (basename ''/tmp/styrene0/a/x.zip'') = ''/cwd/x.zip'' \<and>
   join ''/cwd'' (basename ''/tmp/styrene0/b/x.zip'') = ''/cwd/x.zip'' \<and>
   files (fs (snd (process_spec_file env_same_name [] opts_default world_start))) ''/cwd/x.zip'' =
     Some ''B'' \<and>
   files (fs (snd (process_spec_file env_same_name [] opts_default world_start))) ''/cwd/x.zip'' \<noteq>
     files (snd (write_distributables same_name_bundle ''/tmp/styrene0'' opts_default fs_tmp))
       ''/tmp/styrene0/a/x.zip''"
  by (simp add: example_defs run_defs)


subsection \<open>\<open>main\<close>\<close>


lemma copy_distfiles_log [simp]: "log (snd (copy_distfiles env out_dir ps w)) = log w"
  by (induction ps arbitrary: w) (auto simp: Let_def split: sum.splits)


lemma finally_block_errors [simp]:
  "error_records (snd (finally_block env tmp_dir in_flight w)) = error_records w"
  by (auto simp: finally_block_def error_records_def Let_def INFO_def ERROR_def
      split: option.splits prod.splits)

lemma error_records_cong: "log w = log w' \<Longrightarrow> error_records w = error_records w'"
  by (simp add: error_records_def)







end
